theory Spec2Isabelle
  imports Complex_Main "HOL-Library.Sublist"
begin

section \<open>JavaScript strings\<close>

text \<open>
  A JavaScript string is modelled as a \<^typ>\<open>string\<close>, a list of code units.  The three
  string methods the services call are written out on lists.
\<close>

definition startsWith :: "string \<Rightarrow> string \<Rightarrow> bool" where
  "startsWith s p = (take (length p) s = p)"

definition endsWith :: "string \<Rightarrow> string \<Rightarrow> bool" where
  "endsWith s p = (length p \<le> length s \<and> drop (length s - length p) s = p)"

fun str_includes :: "string \<Rightarrow> string \<Rightarrow> bool" where
  "str_includes [] k = (k = [])"
| "str_includes (c # s) k = (startsWith (c # s) k \<or> str_includes s k)"

section \<open>JavaScript numbers\<close>

text \<open>
  A JavaScript number is an IEEE 754 binary64 value.  Every finite binary64 value is a
  rational number, so a finite number is modelled by the rational it denotes, and every
  arithmetic operation is the exact operation followed by \<open>fl\<close>, rounding to the nearest
  binary64 value with ties going to the even significand.  Values in the binade
  \<open>2 ^ e \<le> \<bar>x\<bar> < 2 ^ (e + 1)\<close> are multiples of \<open>2 ^ (e - 52)\<close>; below \<open>2 ^ - 1022\<close> the
  spacing stays \<open>2 ^ - 1074\<close>.  Overflow to \<open>Infinity\<close> and \<open>NaN\<close> are outside the model:
  the numbers of \<open>calculateConfidence\<close> lie between 0 and 100.
\<close>

type_synonym double = real

fun bit_length :: "nat \<Rightarrow> nat" where
  "bit_length n = (if n = 0 then 0 else Suc (bit_length (n div 2)))"

declare bit_length.simps [simp del]

definition pow2 :: "int \<Rightarrow> real" where
  "pow2 d = (if 0 \<le> d then 2 ^ nat d else 1 / 2 ^ nat (- d))"

definition binade :: "real \<Rightarrow> int" where
  "binade x =
     (if 1 \<le> \<bar>x\<bar> then int (bit_length (nat \<lfloor>\<bar>x\<bar>\<rfloor>)) - 1
      else - int (bit_length (nat (\<lceil>1 / \<bar>x\<bar>\<rceil> - 1))))"

definition round_half_even :: "real \<Rightarrow> int" where
  "round_half_even m = (let f = \<lfloor>m\<rfloor>; d = m - of_int f in
     if d < 1 / 2 then f else if 1 / 2 < d then f + 1 else if even f then f else f + 1)"

definition fl :: "real \<Rightarrow> double" where
  "fl x = (if x = 0 then 0 else
     let u = pow2 (max (binade x) (- 1022) - 52)
     in of_int (round_half_even (x / u)) * u)"

definition fadd :: "double \<Rightarrow> double \<Rightarrow> double" where
  "fadd a b = fl (a + b)"

definition fmul :: "double \<Rightarrow> double \<Rightarrow> double" where
  "fmul a b = fl (a * b)"

definition fdiv :: "double \<Rightarrow> double \<Rightarrow> double" where
  "fdiv a b = fl (a / b)"

text \<open>
  \<open>Math.round\<close> returns the nearest integer, the larger one at a tie: the floor of
  \<open>x + 1/2\<close>, which is \<^const>\<open>round\<close>.
\<close>

definition Math_round :: "double \<Rightarrow> int" where
  "Math_round x = round x"

text \<open>
  \<open>Array.prototype.reduce\<close> with a callback that takes the index, and an indexed read
  \<open>xs[i] ?? 0\<close> that gives 0 past the end of the array.
\<close>

fun reduce_indexed :: "('b \<Rightarrow> 'a \<Rightarrow> nat \<Rightarrow> 'b) \<Rightarrow> 'b \<Rightarrow> nat \<Rightarrow> 'a list \<Rightarrow> 'b" where
  "reduce_indexed f acc i [] = acc"
| "reduce_indexed f acc i (x # xs) = reduce_indexed f (f acc x i) (Suc i) xs"

definition index_or_zero :: "double list \<Rightarrow> nat \<Rightarrow> double" where
  "index_or_zero xs i = (if i < length xs then xs ! i else 0)"

section \<open>The confidence scorer (services/confidence-scorer.ts)\<close>

subsection \<open>Data and the runtime\<close>

record DiscoveredSkill =
  name :: string
  description :: string
  skillKeywords :: "string list"
  filePatterns :: "string list"
  skillPath :: string
  skillMdPath :: string

record MatchDetails =
  keywordMatches :: "string list"
  fileMatches :: "string list"
  contentMatches :: "string list"
  keywordScore :: int
  fileScore :: int
  contentScore :: int

text \<open>
  The sub-scores are computed from array lengths with \<open>+\<close>, \<open>-\<close>, \<open>*\<close> and \<open>Math.min\<close> on
  integers far below \<open>2 ^ 53\<close>, where binary64 arithmetic is exact: they are modelled as
  \<^typ>\<open>int\<close> and enter the binary64 computation of \<open>calculateConfidence\<close> through
  \<^const>\<open>of_int\<close>.
\<close>

record ScoreResult =
  score :: int
  matches :: "string list"

record ConfidenceResult =
  confidence :: int
  details :: MatchDetails

text \<open>The optional third argument of \<open>calculateConfidence\<close>; each field is optional too.\<close>

record Context =
  openFiles :: "string list option"
  fileContents :: "string list option"

datatype RegExp = RegExp (source: string) (flags: string)

datatype js_error = TypeError

text \<open>
  Three operations come from outside the repository and are parameters of the model:
  \<open>String.prototype.toLowerCase\<close>, \<open>minimatch(file, pattern, { dot: true })\<close> of the
  minimatch package, and \<open>RegExp.prototype.test\<close>.  A call of \<open>minimatch\<close> either answers
  or throws: the package validates the pattern first and throws a \<open>TypeError\<close> for one it
  refuses, such as a pattern of more than 65536 characters.
\<close>

record runtime =
  toLowerCase :: "string \<Rightarrow> string"
  minimatch :: "string \<Rightarrow> string \<Rightarrow> js_error + bool"
  test :: "RegExp \<Rightarrow> string \<Rightarrow> bool"

text \<open>
  Reading \<open>obj[key]\<close> on an object literal gives the own property when the key is one,
  a member inherited from \<open>Object.prototype\<close> when the key names one, and \<open>undefined\<close>
  otherwise.  No inherited member is \<open>null\<close> or \<open>undefined\<close>, and none is iterable.
\<close>

datatype 'a property = Own 'a | Inherited | Undefined

definition Object_prototype_keys :: "string list" where
  "Object_prototype_keys =
     [''constructor'', ''__defineGetter__'', ''__defineSetter__'', ''hasOwnProperty'',
      ''__lookupGetter__'', ''__lookupSetter__'', ''isPrototypeOf'', ''propertyIsEnumerable'',
      ''toString'', ''valueOf'', ''__proto__'', ''toLocaleString'']"

definition get_property :: "(string \<times> 'a) list \<Rightarrow> string \<Rightarrow> 'a property" where
  "get_property obj key =
     (case map_of obj key of
        Some v \<Rightarrow> Own v
      | None \<Rightarrow> if key \<in> set Object_prototype_keys then Inherited else Undefined)"

subsection \<open>Weights\<close>

text \<open>The literals \<open>0.4\<close> and \<open>0.3\<close> denote the binary64 values nearest to 4/10 and 3/10.\<close>

definition WEIGHTS_keywords :: double where
  "WEIGHTS_keywords = fl (4 / 10)"

definition WEIGHTS_files :: double where
  "WEIGHTS_files = fl (3 / 10)"

definition WEIGHTS_content :: double where
  "WEIGHTS_content = fl (3 / 10)"

subsection \<open>Keyword score\<close>

fun keywordLoop :: "string \<Rightarrow> string list \<Rightarrow> string list \<Rightarrow> string list" where
  "keywordLoop normalizedPrompt [] ms = ms"
| "keywordLoop normalizedPrompt (keyword # rest) ms =
     keywordLoop normalizedPrompt rest
       (if str_includes normalizedPrompt keyword then ms @ [keyword] else ms)"

definition calculateKeywordScore :: "runtime \<Rightarrow> string \<Rightarrow> string list \<Rightarrow> ScoreResult" where
  "calculateKeywordScore rt prompt kws =
     (let normalizedPrompt = toLowerCase rt prompt;
          ms = keywordLoop normalizedPrompt kws []
      in if length ms = 0 then \<lparr>score = 0, matches = []\<rparr>
         else
           let baseScore = 70;
               bonusPerMatch = 5;
               sc = min 100 (baseScore + (int (length ms) - 1) * bonusPerMatch)
           in \<lparr>score = sc, matches = ms\<rparr>)"

subsection \<open>File pattern score\<close>

text \<open>
  The inner loop: \<open>True\<close> when some pattern matched, where the source pushes and breaks.
  Nothing in the function catches an exception, so a call of \<open>minimatch\<close> that throws ends
  both loops and the function.
\<close>

fun patternLoop :: "runtime \<Rightarrow> string \<Rightarrow> string list \<Rightarrow> js_error + bool" where
  "patternLoop rt file [] = Inr False"
| "patternLoop rt file (pattern # rest) =
     (case minimatch rt file pattern of
        Inl e \<Rightarrow> Inl e
      | Inr matched \<Rightarrow> if matched then Inr True else patternLoop rt file rest)"

fun fileLoop ::
  "runtime \<Rightarrow> string list \<Rightarrow> string list \<Rightarrow> string list \<Rightarrow> js_error + string list" where
  "fileLoop rt [] pats ms = Inr ms"
| "fileLoop rt (file # rest) pats ms =
     (case patternLoop rt file pats of
        Inl e \<Rightarrow> Inl e
      | Inr found \<Rightarrow> fileLoop rt rest pats (if found then ms @ [file] else ms))"

definition calculateFileScore ::
  "runtime \<Rightarrow> string list \<Rightarrow> string list \<Rightarrow> js_error + ScoreResult" where
  "calculateFileScore rt files pats =
     (if length pats = 0 \<or> length files = 0 then Inr \<lparr>score = 0, matches = []\<rparr>
      else
        case fileLoop rt files pats [] of
          Inl e \<Rightarrow> Inl e
        | Inr ms \<Rightarrow>
            if length ms = 0 then Inr \<lparr>score = 0, matches = []\<rparr>
            else
              let baseScore = 80;
                  bonusPerMatch = 10;
                  sc = min 100 (baseScore + (int (length ms) - 1) * bonusPerMatch)
              in Inr \<lparr>score = sc, matches = ms\<rparr>)"

subsection \<open>Semantic content score\<close>

definition SEMANTIC_PATTERNS :: "(string \<times> RegExp) list" where
  "SEMANTIC_PATTERNS =
     [(''webhook/callback'',
       RegExp (CHR 0x5C # ''b(webhook|callback|event.*handler|api.*endpoint|http.*action|external.*api|payload|signature.*verif)'') ''i''),
      (''payment/stripe'',
       RegExp (CHR 0x5C # ''b(stripe|payment|checkout|charge|subscription|invoice|billing|transaction|card)'') ''i''),
      (''auth/session'',
       RegExp (CHR 0x5C # ''b(auth|login|signup|session|jwt|oauth|token|credentials|password|user.*management)'') ''i''),
      (''database/schema'',
       RegExp (CHR 0x5C # ''b(schema|table|query|mutation|database|data.*model|field|index|migration)'') ''i''),
      (''validation/security'',
       RegExp (CHR 0x5C # ''b(validat|sanitiz|xss|sql.*inject|csrf|rate.*limit|audit|pii|encrypt)'') ''i''),
      (''realtime/convex'',
       RegExp (CHR 0x5C # ''b(realtime|live.*query|subscri|reactive|websocket|sse|push.*notif)'') ''i''),
      (''forms/input'',
       RegExp (CHR 0x5C # ''b(form|input|textarea|checkbox|radio|select|validation|submit|field)'') ''i''),
      (''api/http'',
       RegExp (CHR 0x5C # ''b(api|rest|endpoint|route|request|response|fetch|axios|http.*client)'') ''i'')]"

definition skillPatterns :: "(string \<times> string list) list" where
  "skillPatterns =
     [(''convex-patterns'',
       [''webhook/callback'', ''database/schema'', ''realtime/convex'', ''api/http'']),
      (''security-patterns'',
       [''validation/security'', ''auth/session'', ''payment/stripe'']),
      (''react-patterns'', [''forms/input'', ''realtime/convex'']),
      (''typescript-patterns'', [''database/schema'', ''validation/security''])]"

text \<open>
  \<open>pattern?.test(normalizedPrompt)\<close>: \<open>undefined\<close> when the table has no such pattern,
  which the \<open>if\<close> takes as false.  The loop only looks up names listed in
  \<open>skillPatterns\<close>, each of them a key of \<open>SEMANTIC_PATTERNS\<close>.  The patterns carry the
  flag \<open>i\<close> alone, so \<open>test\<close> keeps no state from one call to the next.
\<close>

definition patternTest :: "runtime \<Rightarrow> string \<Rightarrow> string \<Rightarrow> bool" where
  "patternTest rt patternName normalizedPrompt =
     (case map_of SEMANTIC_PATTERNS patternName of
        None \<Rightarrow> False
      | Some pattern \<Rightarrow> test rt pattern normalizedPrompt)"

fun contentLoop :: "runtime \<Rightarrow> string \<Rightarrow> string list \<Rightarrow> string list \<Rightarrow> string list" where
  "contentLoop rt normalizedPrompt [] ms = ms"
| "contentLoop rt normalizedPrompt (patternName # rest) ms =
     contentLoop rt normalizedPrompt rest
       (if patternTest rt patternName normalizedPrompt then ms @ [patternName] else ms)"

text \<open>
  \<open>skillPatterns[skillName] ?? []\<close> replaces only \<open>undefined\<close> by the empty list.  An
  inherited member stays, and \<open>for (... of relevantPatterns)\<close> over it throws a
  \<open>TypeError\<close>, as it is not iterable.
\<close>

definition calculateContentScore :: "runtime \<Rightarrow> string \<Rightarrow> string \<Rightarrow> js_error + ScoreResult" where
  "calculateContentScore rt prompt skillName =
     (let normalizedPrompt = toLowerCase rt prompt
      in case get_property skillPatterns skillName of
           Inherited \<Rightarrow> Inl TypeError
         | found \<Rightarrow>
             let relevantPatterns = (case found of Own ps \<Rightarrow> ps | _ \<Rightarrow> []);
                 ms = contentLoop rt normalizedPrompt relevantPatterns []
             in if length ms = 0 then Inr \<lparr>score = 0, matches = []\<rparr>
                else
                  let baseScore = 70;
                      bonusPerMatch = 10;
                      sc = min 100 (baseScore + (int (length ms) - 1) * bonusPerMatch)
                  in Inr \<lparr>score = sc, matches = ms\<rparr>)"

subsection \<open>Overall confidence\<close>

text \<open>\<open>context?.openFiles ?? []\<close>: the open files of the context, none when either is absent.\<close>

definition contextOpenFiles :: "Context option \<Rightarrow> string list" where
  "contextOpenFiles context =
     (case context of
        None \<Rightarrow> []
      | Some c \<Rightarrow> (case openFiles c of None \<Rightarrow> [] | Some fs \<Rightarrow> fs))"

text \<open>
  The three sub-scores are computed in the order keyword, file, content, and the first
  exception ends the function.
\<close>

definition calculateConfidence ::
  "runtime \<Rightarrow> string \<Rightarrow> DiscoveredSkill \<Rightarrow> Context option \<Rightarrow> js_error + ConfidenceResult" where
  "calculateConfidence rt prompt skill context =
     (let keywordResult = calculateKeywordScore rt prompt (skillKeywords skill)
      in case calculateFileScore rt (contextOpenFiles context) (filePatterns skill) of
           Inl e \<Rightarrow> Inl e
         | Inr fileResult \<Rightarrow>
      case calculateContentScore rt prompt (name skill) of
           Inl e \<Rightarrow> Inl e
         | Inr contentResult \<Rightarrow>
             let activeWeights =
                   (if score keywordResult > 0 then [WEIGHTS_keywords] else []) @
                   (if score fileResult > 0 then [WEIGHTS_files] else []) @
                   (if score contentResult > 0 then [WEIGHTS_content] else []);
                 activeScores =
                   (if score keywordResult > 0 then [of_int (score keywordResult)] else []) @
                   (if score fileResult > 0 then [of_int (score fileResult)] else []) @
                   (if score contentResult > 0 then [of_int (score contentResult)] else [])
             in if length activeWeights = 0 then
                  Inr \<lparr>confidence = 0,
                       details = \<lparr>keywordMatches = [], fileMatches = [], contentMatches = [],
                                  keywordScore = 0, fileScore = 0, contentScore = 0\<rparr>\<rparr>
                else
                  let totalWeight = foldl (\<lambda>sum w. fadd sum w) 0 activeWeights;
                      normalizedWeights = map (\<lambda>w. fdiv w totalWeight) activeWeights;
                      conf = reduce_indexed
                        (\<lambda>sum sc i. fadd sum (fmul sc (index_or_zero normalizedWeights i)))
                        0 0 activeScores
                  in Inr \<lparr>confidence = Math_round conf,
                          details = \<lparr>keywordMatches = matches keywordResult,
                                     fileMatches = matches fileResult,
                                     contentMatches = matches contentResult,
                                     keywordScore = score keywordResult,
                                     fileScore = score fileResult,
                                     contentScore = score contentResult\<rparr>\<rparr>)"

section \<open>The path validator (services/security.ts)\<close>

record SecurityError =
  message :: string
  attemptedPath :: string
  reason :: string

text \<open>
  The validator reads the file system through \<open>realpathSync\<close> (\<open>None\<close> when it throws)
  and \<open>existsSync\<close>, and computes on paths with \<open>normalize\<close>, \<open>resolve\<close> and \<open>sep\<close> of
  \<open>node:path\<close>; \<open>resolve\<close> takes its arguments as a list.  They are parameters of the model.
\<close>

record node_env =
  realpathSync :: "string \<Rightarrow> string option"
  existsSync :: "string \<Rightarrow> bool"
  path_normalize :: "string \<Rightarrow> string"
  path_resolve :: "string list \<Rightarrow> string"
  path_sep :: char

definition validatePath :: "node_env \<Rightarrow> string \<Rightarrow> string \<Rightarrow> SecurityError + string" where
  "validatePath env targetPath allowedDir =
     (case realpathSync env allowedDir of
        None \<Rightarrow>
          Inl \<lparr>message = ''Allowed directory does not exist: '' @ allowedDir,
               attemptedPath = allowedDir,
               reason = ''allowed_dir_not_found''\<rparr>
      | Some resolvedAllowedDir \<Rightarrow>
          let normalizedPath = path_normalize env targetPath;
              absolutePath = path_resolve env [normalizedPath];
              allowedPrefix =
                (if endsWith resolvedAllowedDir [path_sep env] then resolvedAllowedDir
                 else resolvedAllowedDir @ [path_sep env])
          in if \<not> startsWith absolutePath allowedPrefix then
               Inl \<lparr>message = ''Access denied: Path is outside allowed directory (.claude/)'',
                    attemptedPath = targetPath,
                    reason = ''outside_allowed_directory''\<rparr>
             else if \<not> existsSync env absolutePath then
               Inl \<lparr>message = ''Path does not exist: '' @ targetPath,
                    attemptedPath = targetPath,
                    reason = ''path_not_found''\<rparr>
             else
               case realpathSync env absolutePath of
                 None \<Rightarrow>
                   Inl \<lparr>message = ''Cannot resolve path: '' @ targetPath,
                        attemptedPath = targetPath,
                        reason = ''path_resolution_failed''\<rparr>
               | Some resolvedPath \<Rightarrow>
                   let projectRoot = path_resolve env [resolvedAllowedDir, ''..''];
                       projectPrefix =
                         (if endsWith projectRoot [path_sep env] then projectRoot
                          else projectRoot @ [path_sep env])
                   in if \<not> startsWith resolvedPath projectPrefix then
                        Inl \<lparr>message = ''Access denied: Symlink points outside project directory'',
                             attemptedPath = targetPath,
                             reason = ''symlink_outside_project''\<rparr>
                      else if str_includes normalizedPath ''..'' then
                        Inl \<lparr>message = ''Path traversal detected: '' @ targetPath,
                             attemptedPath = targetPath,
                             reason = ''path_traversal_detected''\<rparr>
                      else Inr resolvedPath)"

section \<open>Vocabulary of the specification\<close>

text \<open>
  A path lies inside a directory when it starts with the directory followed by a separator
  (the directory itself when it already ends with one).
\<close>

definition dirPrefix :: "node_env \<Rightarrow> string \<Rightarrow> string" where
  "dirPrefix env dir = (if endsWith dir [path_sep env] then dir else dir @ [path_sep env])"

definition liesInside :: "node_env \<Rightarrow> string \<Rightarrow> string \<Rightarrow> bool" where
  "liesInside env dir p = startsWith p (dirPrefix env dir)"

text \<open>
  The confidence the specification describes, in exact arithmetic: the signals with a
  strictly positive score are active, each active weight is divided by the sum of the
  active weights, and the weighted sum of the active scores is rounded to the nearest
  integer.
\<close>

definition spec_confidence :: "int \<Rightarrow> int \<Rightarrow> int \<Rightarrow> int" where
  "spec_confidence k f c =
     (let active = filter (\<lambda>(w, s). 0 < s) [(4 / 10, k), (3 / 10, f), (3 / 10, c)];
          total = sum_list (map fst active)
      in round (sum_list (map (\<lambda>(w, s). (w / total) * (of_int s :: real)) active)))"

text \<open>
  The keyword score as the specification words it: 70 for a first match and 5 for each
  further distinct matched keyword, at most 100.
\<close>

definition distinct_keyword_score :: "string \<Rightarrow> string list \<Rightarrow> int" where
  "distinct_keyword_score lowered kws =
     (let d = length (remdups (filter (str_includes lowered) kws))
      in if d = 0 then 0 else min 100 (70 + 5 * (int d - 1)))"

text \<open>
  The end of \<open>calculateConfidence\<close>, from \<open>totalWeight\<close> to \<open>Math.round\<close>, as a function
  of the two arrays \<open>activeWeights\<close> and \<open>activeScores\<close>.
\<close>

definition weighted_confidence :: "double list \<Rightarrow> double list \<Rightarrow> int" where
  "weighted_confidence activeWeights activeScores =
     (let totalWeight = foldl (\<lambda>sum w. fadd sum w) 0 activeWeights;
          normalizedWeights = map (\<lambda>w. fdiv w totalWeight) activeWeights;
          conf = reduce_indexed
                   (\<lambda>sum sc i. fadd sum (fmul sc (index_or_zero normalizedWeights i)))
                   0 0 activeScores
      in Math_round conf)"

section \<open>Example environments\<close>

text \<open>
  A runtime for examples: \<open>toLowerCase\<close> on ASCII letters, and \<open>minimatch\<close> and \<open>test\<close> given
  by the pairs they accept among the inputs used below.  As in the package, \<open>minimatch\<close>
  throws for a pattern of more than 65536 characters.
\<close>

definition ascii_toLowerCase :: "string \<Rightarrow> string" where
  "ascii_toLowerCase s =
     map (\<lambda>c. case map_of (zip ''ABCDEFGHIJKLMNOPQRSTUVWXYZ'' ''abcdefghijklmnopqrstuvwxyz'') c of
                 None \<Rightarrow> c | Some l \<Rightarrow> l) s"

definition example_runtime :: runtime where
  "example_runtime =
     \<lparr>toLowerCase = ascii_toLowerCase,
      minimatch = (\<lambda>file pat.
        if 65536 < length pat then Inl TypeError
        else Inr ((file, pat) \<in> set
          [(''convex/schema.ts'', ''convex/**/*.ts''),
           (''convex/schema.ts'', ''**/schema.ts''),
           (''convex/users.ts'', ''convex/**/*.ts'')])),
      test = (\<lambda>re prompt. (source re, prompt) \<in> set
        [(CHR 0x5C # ''b(webhook|callback|event.*handler|api.*endpoint|http.*action|external.*api|payload|signature.*verif)'',
          ''create a webhook handler for stripe events'')])\<rparr>"

definition example_skill :: "string \<Rightarrow> string list \<Rightarrow> string list \<Rightarrow> DiscoveredSkill" where
  "example_skill n kws pats =
     \<lparr>name = n, description = ''example'', skillKeywords = kws, filePatterns = pats,
      skillPath = ''.claude/skills/'' @ n, skillMdPath = ''.claude/skills/'' @ n @ ''/SKILL.md''\<rparr>"

text \<open>
  A POSIX file system for examples.  Every path used with it is absolute and in normal
  form, where \<open>normalize\<close> and \<open>resolve\<close> of one argument return the path itself, and
  \<open>resolve(dir, '..')\<close> is the parent directory.  The table gives the canonical path of
  each existing path: \<open>docs\<close>, \<open>passwd\<close> and \<open>link..out\<close> are symbolic links.
\<close>

definition parentDir :: "string \<Rightarrow> string" where
  "parentDir p =
     (let d = rev (drop 1 (dropWhile (\<lambda>c. c \<noteq> CHR ''/'') (rev p)))
      in if d = [] then ''/'' else d)"

definition example_paths :: "(string \<times> string) list" where
  "example_paths =
     [(''/'', ''/''),
      (''/repo'', ''/repo''),
      (''/repo/.claude'', ''/repo/.claude''),
      (''/repo/.claude/skills'', ''/repo/.claude/skills''),
      (''/repo/.claude/notes..md'', ''/repo/.claude/notes..md''),
      (''/repo/.claude/docs'', ''/repo/docs''),
      (''/repo/.claude/passwd'', ''/etc/passwd''),
      (''/repo/.claude/link..out'', ''/etc/passwd''),
      (''/repo/docs'', ''/repo/docs''),
      (''/etc/passwd'', ''/etc/passwd'')]"

definition example_fs :: node_env where
  "example_fs =
     \<lparr>realpathSync = map_of example_paths,
      existsSync = (\<lambda>p. map_of example_paths p \<noteq> None),
      path_normalize = (\<lambda>p. p),
      path_resolve = (\<lambda>ps. case ps of
                        [p] \<Rightarrow> p
                      | [p, q] \<Rightarrow> (if q = ''..'' then parentDir p else q)
                      | _ \<Rightarrow> ''/''),
      path_sep = CHR ''/''\<rparr>"

section \<open>Strings and loops\<close>

lemma startsWith_prefix: "startsWith s p \<longleftrightarrow> prefix p s"
proof
  assume "startsWith s p"
  then have "s = p @ drop (length p) s"
    by (metis append_take_drop_id startsWith_def)
  then show "prefix p s"
    by (metis prefixI)
next
  assume "prefix p s"
  then obtain zs where "s = p @ zs"
    by (auto simp: prefix_def)
  then show "startsWith s p"
    by (simp add: startsWith_def)
qed

lemma str_includes_sublist: "str_includes s k \<longleftrightarrow> sublist k s"
  by (induction s) (auto simp: startsWith_prefix sublist_Cons_right)

lemma keywordLoop_filter:
  "keywordLoop np kws ms = ms @ filter (str_includes np) kws"
  by (induction kws arbitrary: ms) auto

lemma keyword_matches_filter:
  "keywordLoop (toLowerCase rt prompt) kws [] =
     filter (\<lambda>k. sublist k (toLowerCase rt prompt)) kws"
proof -
  have "str_includes np = (\<lambda>k. sublist k np)" for np
    by (simp add: fun_eq_iff str_includes_sublist)
  then show ?thesis
    by (simp add: keywordLoop_filter)
qed






lemma contentLoop_filter:
  "contentLoop rt np names ms = ms @ filter (\<lambda>n. patternTest rt n np) names"
  by (induction names arbitrary: ms) auto

lemma capped_score_cases:
  assumes "0 < n"
  shows "min 100 (70 + (int n - 1) * 5) \<in> {70, 75, 80, 85, 90, 95, 100}"
  using assms by (simp add: min_def) presburger

lemma capped_file_score_cases:
  assumes "0 < n"
  shows "min 100 (80 + (int n - 1) * 10) \<in> {80, 90, 100}"
  using assms by (simp add: min_def) presburger

lemma capped_content_score_cases:
  assumes "0 < n"
  shows "min 100 (70 + (int n - 1) * 10) \<in> {70, 80, 90, 100}"
  using assms by (simp add: min_def) presburger

lemma keyword_score_range:
  "score (calculateKeywordScore rt prompt kws) \<in> {0, 70, 75, 80, 85, 90, 95, 100}"
proof (cases "keywordLoop (toLowerCase rt prompt) kws [] = []")
  case True
  then show ?thesis by (simp add: calculateKeywordScore_def)
next
  case False
  then have "0 < length (keywordLoop (toLowerCase rt prompt) kws [])" by simp
  from capped_score_cases [OF this] False show ?thesis
    by (simp add: calculateKeywordScore_def Let_def)
qed

lemma file_score_range:
  assumes "calculateFileScore rt files pats = Inr fr"
  shows "score fr \<in> {0, 80, 90, 100}"
proof (cases "pats = [] \<or> files = []")
  case True
  with assms show ?thesis by (auto simp add: calculateFileScore_def)
next
  case False
  with assms obtain ms where ms: "fileLoop rt files pats [] = Inr ms"
    by (auto simp: calculateFileScore_def split: sum.splits)
  show ?thesis
  proof (cases "ms = []")
    case True
    with assms False ms show ?thesis by (auto simp add: calculateFileScore_def)
  next
    case nonempty: False
    then have "0 < length ms" by simp
    from capped_file_score_cases [OF this] assms False ms nonempty show ?thesis
      by (auto simp add: calculateFileScore_def Let_def)
  qed
qed

lemma content_score_range:
  assumes "calculateContentScore rt prompt skillName = Inr cr"
  shows "score cr \<in> {0, 70, 80, 90, 100}"
proof -
  define ms where "ms = contentLoop rt (toLowerCase rt prompt)
     (case get_property skillPatterns skillName of Own ps \<Rightarrow> ps | _ \<Rightarrow> []) []"
  show ?thesis
  proof (cases "ms = []")
    case True
    with assms show ?thesis
      by (auto simp: calculateContentScore_def Let_def ms_def split: property.splits)
  next
    case False
    then have "0 < length ms" by simp
    from capped_content_score_cases [OF this] False assms show ?thesis
      by (auto simp: calculateContentScore_def Let_def ms_def split: property.splits)
  qed
qed

lemma content_skill_not_relevant:
  assumes "map_of skillPatterns skillName = None" "skillName \<notin> set Object_prototype_keys"
  shows "calculateContentScore rt prompt skillName = Inr \<lparr>score = 0, matches = []\<rparr>"
  using assms by (simp add: calculateContentScore_def get_property_def)

lemma content_throws_iff:
  "(\<exists>e. calculateContentScore rt prompt skillName = Inl e) \<longleftrightarrow>
     skillName \<in> set Object_prototype_keys"
  by (auto simp: calculateContentScore_def get_property_def Let_def skillPatterns_def
      Object_prototype_keys_def split: property.splits option.splits if_splits)

section \<open>The binary64 rounding\<close>

text \<open>
  The model of rounding is the usual one: \<open>binade x\<close> is the exponent \<open>e\<close> with
  \<open>2 ^ e \<le> \<bar>x\<bar> < 2 ^ (e + 1)\<close>, the result \<open>fl x\<close> is an integer multiple of the spacing
  of that binade, and it is at most half a spacing away from \<open>x\<close>.  The examples are the
  well-known values of \<open>0.1\<close> and of \<open>0.1 + 0.2\<close>.
\<close>

lemma bit_length_bounds:
  "0 < n \<Longrightarrow> 2 ^ (bit_length n - 1) \<le> n \<and> n < 2 ^ bit_length n"
proof (induction n rule: bit_length.induct)
  case (1 n)
  show ?case
  proof (cases "n div 2 = 0")
    case True
    with "1.prems" have "n = 1" by presburger
    then show ?thesis by (simp add: bit_length.simps)
  next
    case False
    then have pos: "0 < n div 2" by simp
    from "1.prems" have n0: "n \<noteq> 0" by simp
    from "1.IH" [OF n0 pos] have lo: "2 ^ (bit_length (n div 2) - 1) \<le> n div 2"
      and hi: "n div 2 < 2 ^ bit_length (n div 2)" by simp_all
    have bl: "bit_length n = Suc (bit_length (n div 2))"
      using n0 by (subst bit_length.simps) simp
    have blpos: "0 < bit_length (n div 2)"
      using pos by (subst bit_length.simps) simp
    then have "bit_length n - 1 = Suc (bit_length (n div 2) - 1)"
      using bl by simp
    then have "2 ^ (bit_length n - 1) = 2 * 2 ^ (bit_length (n div 2) - 1)"
      by simp
    also have "\<dots> \<le> 2 * (n div 2)" using lo by simp
    also have "\<dots> \<le> n" by simp
    finally have a: "2 ^ (bit_length n - 1) \<le> n" .
    have "n < 2 * (n div 2) + 2" by presburger
    also have "\<dots> \<le> 2 * 2 ^ bit_length (n div 2)" using hi by simp
    finally have "n < 2 ^ bit_length n" by (simp add: bl)
    with a show ?thesis by simp
  qed
qed

lemma binade_bounds:
  assumes "x \<noteq> 0"
  shows "pow2 (binade x) \<le> \<bar>x\<bar> \<and> \<bar>x\<bar> < pow2 (binade x + 1)"
proof (cases "1 \<le> \<bar>x\<bar>")
  case True
  define n where "n = nat \<lfloor>\<bar>x\<bar>\<rfloor>"
  have n1: "0 < n" using True by (simp add: n_def)
  have nx: "real n \<le> \<bar>x\<bar>" "\<bar>x\<bar> < real n + 1"
    unfolding n_def by linarith+
  from bit_length_bounds [OF n1] have lo: "2 ^ (bit_length n - 1) \<le> n" and hi: "n < 2 ^ bit_length n"
    by simp_all
  have blpos: "0 < bit_length n" using n1 by (subst bit_length.simps) simp
  have e: "binade x = int (bit_length n) - 1"
    using True by (simp add: binade_def n_def)
  have p1: "pow2 (binade x) = 2 ^ (bit_length n - 1)"
    using blpos by (simp add: e pow2_def nat_diff_distrib of_nat_diff)
  have p2: "pow2 (binade x + 1) = 2 ^ bit_length n"
    by (simp add: e pow2_def)
  have "(2::real) ^ (bit_length n - 1) \<le> real n"
    using of_nat_mono [OF lo, where ?'a = real] by simp
  then have a: "pow2 (binade x) \<le> \<bar>x\<bar>" using nx(1) unfolding p1 by linarith
  have "n + 1 \<le> 2 ^ bit_length n" using hi by simp
  then have "real n + 1 \<le> 2 ^ bit_length n"
    using of_nat_mono [of "n + 1" "2 ^ bit_length n", where ?'a = real] by simp
  then have "\<bar>x\<bar> < pow2 (binade x + 1)" using nx(2) unfolding p2 by linarith
  with a show ?thesis by simp
next
  case False
  define y where "y = 1 / \<bar>x\<bar>"
  have x0: "0 < \<bar>x\<bar>" using assms by simp
  have y1: "1 < y" using False x0 by (simp add: y_def)
  define m where "m = nat (\<lceil>y\<rceil> - 1)"
  have cy: "2 \<le> \<lceil>y\<rceil>" using y1 by linarith
  have m1: "0 < m" using cy by (simp add: m_def)
  have my: "real m < y" "y \<le> real m + 1"
    unfolding m_def using cy by linarith+
  from bit_length_bounds [OF m1] have lo: "2 ^ (bit_length m - 1) \<le> m" and hi: "m < 2 ^ bit_length m"
    by simp_all
  have blpos: "0 < bit_length m" using m1 by (subst bit_length.simps) simp
  have e: "binade x = - int (bit_length m)"
    using False by (simp add: binade_def m_def y_def)
  have p1: "pow2 (binade x) = 1 / 2 ^ bit_length m"
    using blpos by (simp add: e pow2_def)
  have p2: "pow2 (binade x + 1) = 1 / 2 ^ (bit_length m - 1)"
  proof (cases "bit_length m = 1")
    case True
    then show ?thesis by (simp add: e pow2_def)
  next
    case False
    with blpos have "1 < bit_length m" by simp
    then show ?thesis by (simp add: e pow2_def nat_diff_distrib)
  qed
  have "m + 1 \<le> 2 ^ bit_length m" using hi by simp
  then have "real m + 1 \<le> 2 ^ bit_length m"
    using of_nat_mono [of "m + 1" "2 ^ bit_length m", where ?'a = real] by simp
  then have "y \<le> 2 ^ bit_length m" using my(2) by linarith
  then have a: "pow2 (binade x) \<le> \<bar>x\<bar>"
    using x0 by (simp add: p1 y_def field_simps)
  have "(2::real) ^ (bit_length m - 1) \<le> real m"
    using of_nat_mono [OF lo, where ?'a = real] by simp
  then have "2 ^ (bit_length m - 1) < y" using my(1) by linarith
  then have "2 ^ (bit_length m - 1) < 1 / \<bar>x\<bar>" by (simp add: y_def)
  then have "\<bar>x\<bar> < 1 / 2 ^ (bit_length m - 1)" using x0 by (simp add: field_simps)
  then have "\<bar>x\<bar> < pow2 (binade x + 1)" by (simp only: p2)
  with a show ?thesis by simp
qed

lemma round_half_even_nearest: "\<bar>real_of_int (round_half_even m) - m\<bar> \<le> 1 / 2"
  unfolding round_half_even_def Let_def by (auto; linarith)

lemma pow2_pos: "0 < pow2 d"
  by (simp add: pow2_def)

lemma fl_error:
  "\<bar>fl x - x\<bar> \<le> pow2 (max (binade x) (- 1022) - 52) / 2"
proof (cases "x = 0")
  case True
  then show ?thesis using pow2_pos [of "max (binade 0) (- 1022) - 52"] by (simp add: fl_def)
next
  case False
  define u where "u = pow2 (max (binade x) (- 1022) - 52)"
  have u: "0 < u" unfolding u_def by (rule pow2_pos)
  have "fl x - x = (real_of_int (round_half_even (x / u)) - x / u) * u"
    using False u by (simp add: fl_def u_def Let_def field_simps)
  then have "\<bar>fl x - x\<bar> = \<bar>real_of_int (round_half_even (x / u)) - x / u\<bar> * u"
    using u by (simp add: abs_mult)
  also have "\<dots> \<le> (1 / 2) * u"
    using round_half_even_nearest [of "x / u"] u by (intro mult_right_mono) simp_all
  finally show ?thesis by (simp add: u_def)
qed

lemma fl_examples:
  "fl (1 / 10) = 3602879701896397 / 36028797018963968"
  "fadd (fl (1 / 10)) (fl (2 / 10)) = 1351079888211149 / 4503599627370496"
  "fl 100 = 100"
  by (simp_all add: fl_def binade_def pow2_def round_half_even_def bit_length.simps fadd_def)

section \<open>Evaluating the weighted sum in binary64\<close>

lemmas fl_eval = fl_def binade_def pow2_def round_half_even_def bit_length.simps
  fadd_def fmul_def fdiv_def Math_round_def round_def

lemma WEIGHTS_keywords_val: "WEIGHTS_keywords = 3602879701896397 / 9007199254740992"
  by (simp add: WEIGHTS_keywords_def fl_eval)

lemma WEIGHTS_files_val: "WEIGHTS_files = 5404319552844595 / 18014398509481984"
  by (simp add: WEIGHTS_files_def fl_eval)

lemma WEIGHTS_content_val: "WEIGHTS_content = 5404319552844595 / 18014398509481984"
  by (simp add: WEIGHTS_content_def fl_eval)

lemma weighted_single:
  "weighted_confidence [w] [x] = Math_round (fadd 0 (fmul x (fdiv w (fadd 0 w))))"
  by (simp add: weighted_confidence_def index_or_zero_def)

lemma weighted_pair:
  "weighted_confidence [w1, w2] [x, y] =
     Math_round (fadd (fadd 0 (fmul x (fdiv w1 (fadd (fadd 0 w1) w2))))
                      (fmul y (fdiv w2 (fadd (fadd 0 w1) w2))))"
  by (simp add: weighted_confidence_def index_or_zero_def Let_def)

lemma weighted_triple:
  "weighted_confidence [w1, w2, w3] [x, y, z] =
     Math_round (fadd (fadd (fadd 0 (fmul x (fdiv w1 (fadd (fadd (fadd 0 w1) w2) w3))))
                            (fmul y (fdiv w2 (fadd (fadd (fadd 0 w1) w2) w3))))
                      (fmul z (fdiv w3 (fadd (fadd (fadd 0 w1) w2) w3))))"
  by (simp add: weighted_confidence_def index_or_zero_def Let_def)

lemma norm_single_k:
  "fdiv (3602879701896397 / 9007199254740992) (fadd 0 (3602879701896397 / 9007199254740992)) = 1"
  by (simp add: fl_eval)

lemma norm_single_3:
  "fdiv (5404319552844595 / 18014398509481984) (fadd 0 (5404319552844595 / 18014398509481984)) = 1"
  by (simp add: fl_eval)

lemma total_pair_k3:
  "fadd (fadd 0 (3602879701896397 / 9007199254740992)) (5404319552844595 / 18014398509481984)
     = 3152519739159347 / 4503599627370496"
  by (simp add: fl_eval)

lemma norm_pair_k:
  "fdiv (3602879701896397 / 9007199254740992) (3152519739159347 / 4503599627370496)
     = 5146971002709139 / 9007199254740992"
  by (simp add: fl_eval)

lemma norm_pair_3:
  "fdiv (5404319552844595 / 18014398509481984) (3152519739159347 / 4503599627370496)
     = 1930114126015927 / 4503599627370496"
  by (simp add: fl_eval)

lemma total_pair_33:
  "fadd (fadd 0 (5404319552844595 / 18014398509481984)) (5404319552844595 / 18014398509481984)
     = 5404319552844595 / 9007199254740992"
  by (simp add: fl_eval)

lemma norm_pair_33:
  "fdiv (5404319552844595 / 18014398509481984) (5404319552844595 / 9007199254740992) = 1 / 2"
  by (simp add: fl_eval)

lemma total_triple:
  "fadd (3152519739159347 / 4503599627370496) (5404319552844595 / 18014398509481984) = 1"
  by (simp add: fl_eval)

lemma norm_triple_k:
  "fdiv (3602879701896397 / 9007199254740992) 1 = 3602879701896397 / 9007199254740992"
  by (simp add: fl_eval)

lemma norm_triple_3:
  "fdiv (5404319552844595 / 18014398509481984) 1 = 5404319552844595 / 18014398509481984"
  by (simp add: fl_eval)

lemmas weights_eval = WEIGHTS_keywords_val WEIGHTS_files_val WEIGHTS_content_val
  norm_single_k norm_single_3 total_pair_k3 norm_pair_k norm_pair_3 total_pair_33 norm_pair_33
  total_triple norm_triple_k norm_triple_3

lemma single_k_eval:
  assumes "k \<in> {70, 75, 80, 85, 90, 95, 100}"
  shows "weighted_confidence [WEIGHTS_keywords] [of_int k] = k"
  using assms
  by (elim insertE emptyE; simp add: weighted_single weights_eval; simp add: fl_eval)

lemma single_3_eval:
  assumes "s \<in> {70, 80, 90, 100}"
  shows "weighted_confidence [WEIGHTS_files] [of_int s] = s"
  using assms
  by (elim insertE emptyE; simp add: weighted_single weights_eval; simp add: fl_eval)


lemma spec_confidence_pair_k3:
  "0 < k \<Longrightarrow> 0 < s \<Longrightarrow> spec_confidence k s 0 = round ((4 * real_of_int k + 3 * real_of_int s) / 7)"
  by (simp add: spec_confidence_def field_simps)

lemma pair_k3_eval:
  assumes "k \<in> {70, 75, 80, 85, 90, 95, 100}" "s \<in> {70, 80, 90, 100}"
  shows "weighted_confidence [WEIGHTS_keywords, WEIGHTS_files] [of_int k, of_int s]
           = round ((4 * real_of_int k + 3 * real_of_int s) / 7)"
  using assms
  by (elim insertE emptyE; simp add: weighted_pair weights_eval; simp add: fl_eval)


lemma pair_33_eval:
  assumes "f \<in> {80, 90, 100}" "c \<in> {70, 80, 90, 100}"
  shows "weighted_confidence [WEIGHTS_files, WEIGHTS_content] [of_int f, of_int c]
           = round ((real_of_int f + real_of_int c) / 2)"
  using assms
  by (elim insertE emptyE; simp add: weighted_pair weights_eval; simp add: fl_eval)

lemma triple_eval_70:
  assumes "f \<in> {80, 90, 100}" "c \<in> {70, 80, 90, 100}"
  shows "weighted_confidence [WEIGHTS_keywords, WEIGHTS_files, WEIGHTS_content]
           [70, of_int f, of_int c]
           = round ((280 + 3 * real_of_int f + 3 * real_of_int c) / 10)"
  using assms
  by (elim insertE emptyE; simp add: weighted_triple weights_eval; simp add: fl_eval)

lemma triple_eval_75:
  assumes "f \<in> {80, 90, 100}" "c \<in> {70, 80, 90, 100}"
  shows "weighted_confidence [WEIGHTS_keywords, WEIGHTS_files, WEIGHTS_content]
           [75, of_int f, of_int c]
           = round ((300 + 3 * real_of_int f + 3 * real_of_int c) / 10)"
  using assms
  by (elim insertE emptyE; simp add: weighted_triple weights_eval; simp add: fl_eval)

lemma triple_eval_80:
  assumes "f \<in> {80, 90, 100}" "c \<in> {70, 80, 90, 100}"
  shows "weighted_confidence [WEIGHTS_keywords, WEIGHTS_files, WEIGHTS_content]
           [80, of_int f, of_int c]
           = round ((320 + 3 * real_of_int f + 3 * real_of_int c) / 10)"
  using assms
  by (elim insertE emptyE; simp add: weighted_triple weights_eval; simp add: fl_eval)

lemma triple_eval_85:
  assumes "f \<in> {80, 90, 100}" "c \<in> {70, 80, 90, 100}"
  shows "weighted_confidence [WEIGHTS_keywords, WEIGHTS_files, WEIGHTS_content]
           [85, of_int f, of_int c]
           = round ((340 + 3 * real_of_int f + 3 * real_of_int c) / 10)"
  using assms
  by (elim insertE emptyE; simp add: weighted_triple weights_eval; simp add: fl_eval)

lemma triple_eval_90:
  assumes "f \<in> {80, 90, 100}" "c \<in> {70, 80, 90, 100}"
  shows "weighted_confidence [WEIGHTS_keywords, WEIGHTS_files, WEIGHTS_content]
           [90, of_int f, of_int c]
           = round ((360 + 3 * real_of_int f + 3 * real_of_int c) / 10)"
  using assms
  by (elim insertE emptyE; simp add: weighted_triple weights_eval; simp add: fl_eval)

lemma triple_eval_95:
  assumes "f \<in> {80, 90, 100}" "c \<in> {70, 80, 90, 100}"
  shows "weighted_confidence [WEIGHTS_keywords, WEIGHTS_files, WEIGHTS_content]
           [95, of_int f, of_int c]
           = round ((380 + 3 * real_of_int f + 3 * real_of_int c) / 10)"
  using assms
  by (elim insertE emptyE; simp add: weighted_triple weights_eval; simp add: fl_eval)

lemma triple_eval_100:
  assumes "f \<in> {80, 90, 100}" "c \<in> {70, 80, 90, 100}"
  shows "weighted_confidence [WEIGHTS_keywords, WEIGHTS_files, WEIGHTS_content]
           [100, of_int f, of_int c]
           = round ((400 + 3 * real_of_int f + 3 * real_of_int c) / 10)"
  using assms
  by (elim insertE emptyE; simp add: weighted_triple weights_eval; simp add: fl_eval)

lemma triple_eval:
  assumes "k \<in> {70, 75, 80, 85, 90, 95, 100}" "f \<in> {80, 90, 100}" "c \<in> {70, 80, 90, 100}"
  shows "weighted_confidence [WEIGHTS_keywords, WEIGHTS_files, WEIGHTS_content]
           [of_int k, of_int f, of_int c]
           = round ((4 * real_of_int k + 3 * real_of_int f + 3 * real_of_int c) / 10)"
  using assms(1) triple_eval_70 [OF assms(2,3)] triple_eval_75 [OF assms(2,3)]
    triple_eval_80 [OF assms(2,3)] triple_eval_85 [OF assms(2,3)] triple_eval_90 [OF assms(2,3)]
    triple_eval_95 [OF assms(2,3)] triple_eval_100 [OF assms(2,3)]
  by (elim insertE emptyE) simp_all

lemma spec_confidence_single_k: "0 < k \<Longrightarrow> spec_confidence k 0 0 = k"
  by (simp add: spec_confidence_def)

lemma spec_confidence_single_f: "0 < f \<Longrightarrow> spec_confidence 0 f 0 = f"
  by (simp add: spec_confidence_def)

lemma spec_confidence_single_c: "0 < c \<Longrightarrow> spec_confidence 0 0 c = c"
  by (simp add: spec_confidence_def)

lemma spec_confidence_pair_kc:
  "0 < k \<Longrightarrow> 0 < c \<Longrightarrow> spec_confidence k 0 c = round ((4 * real_of_int k + 3 * real_of_int c) / 7)"
  by (simp add: spec_confidence_def field_simps)

lemma spec_confidence_pair_fc:
  "0 < f \<Longrightarrow> 0 < c \<Longrightarrow> spec_confidence 0 f c = round ((real_of_int f + real_of_int c) / 2)"
  by (simp add: spec_confidence_def field_simps)

lemma spec_confidence_triple:
  "0 < k \<Longrightarrow> 0 < f \<Longrightarrow> 0 < c \<Longrightarrow>
     spec_confidence k f c = round ((4 * real_of_int k + 3 * real_of_int f + 3 * real_of_int c) / 10)"
  by (simp add: spec_confidence_def field_simps)

lemma active_confidence:
  assumes "k \<in> {0, 70, 75, 80, 85, 90, 95, 100}" "f \<in> {0, 80, 90, 100}"
    "c \<in> {0, 70, 80, 90, 100}"
  shows "weighted_confidence
           ((if 0 < k then [WEIGHTS_keywords] else []) @
            (if 0 < f then [WEIGHTS_files] else []) @
            (if 0 < c then [WEIGHTS_content] else []))
           ((if 0 < k then [of_int k] else []) @
            (if 0 < f then [of_int f] else []) @
            (if 0 < c then [of_int c] else []))
         = spec_confidence k f c"
proof -
  have k: "k = 0 \<or> (0 < k \<and> k \<in> {70, 75, 80, 85, 90, 95, 100})"
    using assms(1) by auto
  have f: "f = 0 \<or> (0 < f \<and> f \<in> {80, 90, 100})"
    using assms(2) by auto
  have c: "c = 0 \<or> (0 < c \<and> c \<in> {70, 80, 90, 100})"
    using assms(3) by auto
  have f': "0 < f \<Longrightarrow> f \<in> {70, 80, 90, 100}"
    using assms(2) by auto
  have zero: "weighted_confidence [] [] = spec_confidence 0 0 0"
    by (simp add: weighted_confidence_def spec_confidence_def Math_round_def)
  have c_as_f: "weighted_confidence [WEIGHTS_keywords, WEIGHTS_content] xs =
      weighted_confidence [WEIGHTS_keywords, WEIGHTS_files] xs" for xs
    by (simp add: WEIGHTS_content_def WEIGHTS_files_def)
  have c_as_f1: "weighted_confidence [WEIGHTS_content] xs =
      weighted_confidence [WEIGHTS_files] xs" for xs
    by (simp add: WEIGHTS_content_def WEIGHTS_files_def)
  from k f c show ?thesis
  proof (elim disjE conjE)
    assume "k = 0" "f = 0" "c = 0"
    then show ?thesis by (simp add: zero)
  next
    assume "k = 0" "f = 0" "0 < c" "c \<in> {70, 80, 90, 100}"
    then show ?thesis
      by (simp add: c_as_f1 single_3_eval spec_confidence_single_c)
  next
    assume "k = 0" "0 < f" "f \<in> {80, 90, 100}" "c = 0"
    then show ?thesis
      using f' by (simp add: single_3_eval spec_confidence_single_f)
  next
    assume "k = 0" "0 < f" "f \<in> {80, 90, 100}" "0 < c" "c \<in> {70, 80, 90, 100}"
    then show ?thesis
      by (simp add: pair_33_eval spec_confidence_pair_fc)
  next
    assume "0 < k" "k \<in> {70, 75, 80, 85, 90, 95, 100}" "f = 0" "c = 0"
    then show ?thesis
      by (simp add: single_k_eval spec_confidence_single_k)
  next
    assume "0 < k" "k \<in> {70, 75, 80, 85, 90, 95, 100}" "f = 0" "0 < c" "c \<in> {70, 80, 90, 100}"
    then show ?thesis
      by (simp add: c_as_f pair_k3_eval spec_confidence_pair_kc)
  next
    assume "0 < k" "k \<in> {70, 75, 80, 85, 90, 95, 100}" "0 < f" "f \<in> {80, 90, 100}" "c = 0"
    then show ?thesis
      using f' by (simp add: pair_k3_eval spec_confidence_pair_k3)
  next
    assume "0 < k" "k \<in> {70, 75, 80, 85, 90, 95, 100}" "0 < f" "f \<in> {80, 90, 100}"
      "0 < c" "c \<in> {70, 80, 90, 100}"
    then show ?thesis
      by (simp add: triple_eval spec_confidence_triple)
  qed
qed

lemma spec_confidence_range:
  assumes "k \<in> {0, 70, 75, 80, 85, 90, 95, 100}" "f \<in> {0, 80, 90, 100}"
    "c \<in> {0, 70, 80, 90, 100}"
  shows "0 \<le> spec_confidence k f c \<and> spec_confidence k f c \<le> 100"
  using assms
  by (elim insertE emptyE; simp add: spec_confidence_def round_def)

section \<open>The confidence scorer, verified\<close>

lemma calculateConfidence_throws_file:
  assumes "calculateFileScore rt (contextOpenFiles context) (filePatterns skill) = Inl e"
  shows "calculateConfidence rt prompt skill context = Inl e"
  using assms by (simp add: calculateConfidence_def)

lemma calculateConfidence_throws_content:
  assumes "calculateFileScore rt (contextOpenFiles context) (filePatterns skill) = Inr fr"
    and "calculateContentScore rt prompt (name skill) = Inl e"
  shows "calculateConfidence rt prompt skill context = Inl e"
  using assms by (simp add: calculateConfidence_def)

lemma calculateConfidence_refines:
  assumes fileR: "calculateFileScore rt (contextOpenFiles context) (filePatterns skill) = Inr fr"
    and content: "calculateContentScore rt prompt (name skill) = Inr cr"
  shows "calculateConfidence rt prompt skill context =
     Inr (let kr = calculateKeywordScore rt prompt (skillKeywords skill)
          in if score kr = 0 \<and> score fr = 0 \<and> score cr = 0
             then \<lparr>confidence = 0,
                   details = \<lparr>keywordMatches = [], fileMatches = [], contentMatches = [],
                              keywordScore = 0, fileScore = 0, contentScore = 0\<rparr>\<rparr>
             else \<lparr>confidence = spec_confidence (score kr) (score fr) (score cr),
                   details = \<lparr>keywordMatches = matches kr, fileMatches = matches fr,
                              contentMatches = matches cr, keywordScore = score kr,
                              fileScore = score fr, contentScore = score cr\<rparr>\<rparr>)"
proof -
  define kr where "kr = calculateKeywordScore rt prompt (skillKeywords skill)"
  have k: "score kr \<in> {0, 70, 75, 80, 85, 90, 95, 100}"
    unfolding kr_def by (rule keyword_score_range)
  have f: "score fr \<in> {0, 80, 90, 100}"
    using fileR by (rule file_score_range)
  have c: "score cr \<in> {0, 70, 80, 90, 100}"
    using content by (rule content_score_range)
  have pos: "0 < score kr \<longleftrightarrow> score kr \<noteq> 0" "0 < score fr \<longleftrightarrow> score fr \<noteq> 0"
    "0 < score cr \<longleftrightarrow> score cr \<noteq> 0"
    using k apply auto [1]
    using f apply auto [1]
    using c apply auto [1]
    done
  note ac = active_confidence [OF k f c, unfolded pos]
  have body: "calculateConfidence rt prompt skill context =
      (let activeWeights =
             (if score kr \<noteq> 0 then [WEIGHTS_keywords] else []) @
             (if score fr \<noteq> 0 then [WEIGHTS_files] else []) @
             (if score cr \<noteq> 0 then [WEIGHTS_content] else []);
           activeScores =
             (if score kr \<noteq> 0 then [of_int (score kr)] else []) @
             (if score fr \<noteq> 0 then [of_int (score fr)] else []) @
             (if score cr \<noteq> 0 then [of_int (score cr)] else [])
       in if length activeWeights = 0 then
            Inr \<lparr>confidence = 0,
                 details = \<lparr>keywordMatches = [], fileMatches = [], contentMatches = [],
                            keywordScore = 0, fileScore = 0, contentScore = 0\<rparr>\<rparr>
          else
            Inr \<lparr>confidence = weighted_confidence activeWeights activeScores,
                 details = \<lparr>keywordMatches = matches kr, fileMatches = matches fr,
                            contentMatches = matches cr, keywordScore = score kr,
                            fileScore = score fr, contentScore = score cr\<rparr>\<rparr>)"
    unfolding calculateConfidence_def weighted_confidence_def Let_def fileR content sum.case
    unfolding kr_def [symmetric]
    unfolding pos
    by (rule refl)
  show ?thesis
  proof (cases "score kr = 0 \<and> score fr = 0 \<and> score cr = 0")
    case True
    then show ?thesis
      unfolding body kr_def [symmetric]
      by (simp add: Let_def)
  next
    case False
    then have "(if score kr \<noteq> 0 then [WEIGHTS_keywords] else []) @
             (if score fr \<noteq> 0 then [WEIGHTS_files] else []) @
             (if score cr \<noteq> 0 then [WEIGHTS_content] else []) \<noteq> []"
      by auto
    with False show ?thesis
      unfolding body kr_def [symmetric]
      by (simp only: Let_def ac length_0_conv if_False)
  qed
qed

text \<open>
  Claim C1.  \<open>calculateConfidence\<close> returns confidence 0 with empty match details when
  the keyword, file and content sub-scores are all 0.  Otherwise the confidence is the
  weighted sum of the strictly positive sub-scores with the weights 0.4, 0.3 and 0.3, each
  divided by the sum of the active weights, rounded to the nearest integer: the binary64
  computation of the code and the exact \<open>spec_confidence\<close> round to the same integer.
  When the file score or the content score throws there are no three sub-scores to
  combine: the exception of the file score, else that of the content score, is passed on.
\<close>

theorem calculateConfidence_weighted_sum:
  "calculateConfidence rt prompt skill context =
     (case calculateFileScore rt (contextOpenFiles context) (filePatterns skill) of
        Inl e \<Rightarrow> Inl e
      | Inr fr \<Rightarrow>
          (case calculateContentScore rt prompt (name skill) of
             Inl e \<Rightarrow> Inl e
           | Inr cr \<Rightarrow>
               let kr = calculateKeywordScore rt prompt (skillKeywords skill)
               in Inr (if score kr = 0 \<and> score fr = 0 \<and> score cr = 0
                       then \<lparr>confidence = 0,
                             details = \<lparr>keywordMatches = [], fileMatches = [],
                                        contentMatches = [], keywordScore = 0,
                                        fileScore = 0, contentScore = 0\<rparr>\<rparr>
                       else \<lparr>confidence = spec_confidence (score kr) (score fr) (score cr),
                             details = \<lparr>keywordMatches = matches kr, fileMatches = matches fr,
                                        contentMatches = matches cr, keywordScore = score kr,
                                        fileScore = score fr, contentScore = score cr\<rparr>\<rparr>)))"
proof (cases "calculateFileScore rt (contextOpenFiles context) (filePatterns skill)")
  case (Inl e)
  then show ?thesis
    by (simp add: calculateConfidence_throws_file)
next
  case fileR: (Inr fr)
  show ?thesis
  proof (cases "calculateContentScore rt prompt (name skill)")
    case (Inl e)
    with fileR show ?thesis
      by (simp add: calculateConfidence_throws_content)
  next
    case (Inr cr)
    with fileR show ?thesis
      by (simp add: calculateConfidence_refines Let_def)
  qed
qed

text \<open>
  Claim C8.  The confidence \<open>calculateConfidence\<close> returns is an integer between 0 and
  100.  It returns unless the file score throws or the skill name is a member inherited
  from \<open>Object.prototype\<close>, where the content score throws.
\<close>

theorem confidence_in_range:
  "(case calculateConfidence rt prompt skill context of
      Inl e \<Rightarrow>
        calculateFileScore rt (contextOpenFiles context) (filePatterns skill) = Inl e \<or>
        name skill \<in> set Object_prototype_keys
    | Inr r \<Rightarrow> 0 \<le> confidence r \<and> confidence r \<le> 100)"
proof (cases "calculateFileScore rt (contextOpenFiles context) (filePatterns skill)")
  case (Inl e)
  then show ?thesis
    by (simp add: calculateConfidence_throws_file)
next
  case fileR: (Inr fr)
  show ?thesis
  proof (cases "calculateContentScore rt prompt (name skill)")
    case (Inl e)
    then have "name skill \<in> set Object_prototype_keys"
      using content_throws_iff by blast
    with Inl fileR show ?thesis
      by (simp add: calculateConfidence_throws_content)
  next
    case (Inr cr)
    have "0 \<le> spec_confidence (score (calculateKeywordScore rt prompt (skillKeywords skill)))
              (score fr) (score cr) \<and>
          spec_confidence (score (calculateKeywordScore rt prompt (skillKeywords skill)))
              (score fr) (score cr) \<le> 100"
      by (rule spec_confidence_range [OF keyword_score_range file_score_range [OF fileR]
            content_score_range [OF Inr]])
    then show ?thesis
      by (simp add: calculateConfidence_refines [OF fileR Inr] Let_def)
  qed
qed

text \<open>
  Claim C7.  When exactly one of the three sub-scores is strictly positive,
  \<open>calculateConfidence\<close> returns that sub-score as the confidence.  The three sub-scores
  exist when the file score and the content score return.
\<close>

theorem single_active_signal:
  assumes "calculateFileScore rt (contextOpenFiles context) (filePatterns skill) = Inr fr"
    and "calculateContentScore rt prompt (name skill) = Inr cr"
    and "k = score (calculateKeywordScore rt prompt (skillKeywords skill))"
    and "f = score fr"
    and "c = score cr"
  shows "\<exists>r. calculateConfidence rt prompt skill context = Inr r \<and>
           (0 < k \<and> \<not> 0 < f \<and> \<not> 0 < c \<longrightarrow> confidence r = k) \<and>
           (\<not> 0 < k \<and> 0 < f \<and> \<not> 0 < c \<longrightarrow> confidence r = f) \<and>
           (\<not> 0 < k \<and> \<not> 0 < f \<and> 0 < c \<longrightarrow> confidence r = c)"
proof -
  have k: "k \<in> {0, 70, 75, 80, 85, 90, 95, 100}"
    unfolding assms(3) by (rule keyword_score_range)
  have f: "f \<in> {0, 80, 90, 100}"
    unfolding assms(4) using assms(1) by (rule file_score_range)
  have c: "c \<in> {0, 70, 80, 90, 100}"
    unfolding assms(5) using assms(2) by (rule content_score_range)
  have "\<not> 0 < k \<longleftrightarrow> k = 0"
    using k by auto
  moreover have "\<not> 0 < f \<longleftrightarrow> f = 0"
    using f by auto
  moreover have "\<not> 0 < c \<longleftrightarrow> c = 0"
    using c by auto
  ultimately have zero: "\<not> 0 < k \<longleftrightarrow> k = 0" "\<not> 0 < f \<longleftrightarrow> f = 0" "\<not> 0 < c \<longleftrightarrow> c = 0"
    by blast+
  show ?thesis
    unfolding zero calculateConfidence_refines [OF assms(1,2)] Let_def
      assms(3) [symmetric] assms(4) [symmetric] assms(5) [symmetric]
    by (auto simp: spec_confidence_single_k spec_confidence_single_f spec_confidence_single_c)
qed

text \<open>One instance for each signal: keyword only, file only, content only.\<close>

theorem single_active_signal_witness:
  "(\<exists>r. calculateConfidence example_runtime ''Add a Convex MUTATION''
         (example_skill ''testing-patterns'' [''convex'', ''mutation'', ''react''] []) None = Inr r \<and>
       confidence r = 75) \<and>
   (\<exists>r. calculateConfidence example_runtime ''hello''
         (example_skill ''testing-patterns'' [''convex''] [''convex/**/*.ts''])
         (Some \<lparr>openFiles = Some [''README.md'', ''convex/schema.ts''], fileContents = None\<rparr>) = Inr r \<and>
       confidence r = 80) \<and>
   (\<exists>r. calculateConfidence example_runtime ''create a webhook handler for stripe events''
         (example_skill ''convex-patterns'' [''convex'', ''mutation''] []) None = Inr r \<and>
       confidence r = 70)"
proof -
  have low: "toLowerCase example_runtime ''Add a Convex MUTATION'' = ''add a convex mutation''"
    "toLowerCase example_runtime ''hello'' = ''hello''"
    "toLowerCase example_runtime ''create a webhook handler for stripe events''
       = ''create a webhook handler for stripe events''"
    by (simp_all add: example_runtime_def ascii_toLowerCase_def)
  have none: "calculateContentScore example_runtime p (name (example_skill ''testing-patterns'' kws pats))
      = Inr \<lparr>score = 0, matches = []\<rparr>" for p kws pats
    by (simp add: example_skill_def content_skill_not_relevant skillPatterns_def
        Object_prototype_keys_def)
  have k1: "75 = score (calculateKeywordScore example_runtime ''Add a Convex MUTATION''
      (skillKeywords (example_skill ''testing-patterns'' [''convex'', ''mutation'', ''react''] [])))"
    by (simp add: example_skill_def calculateKeywordScore_def low startsWith_def)
  have f1: "calculateFileScore example_runtime (contextOpenFiles None)
      (filePatterns (example_skill n kws [])) = Inr \<lparr>score = 0, matches = []\<rparr>" for n kws
    by (simp add: example_skill_def calculateFileScore_def)
  have k2: "0 = score (calculateKeywordScore example_runtime ''hello''
      (skillKeywords (example_skill ''testing-patterns'' [''convex''] [''convex/**/*.ts''])))"
    by (simp add: example_skill_def calculateKeywordScore_def low startsWith_def)
  have f2: "calculateFileScore example_runtime
      (contextOpenFiles (Some \<lparr>openFiles = Some [''README.md'', ''convex/schema.ts''], fileContents = None\<rparr>))
      (filePatterns (example_skill ''testing-patterns'' [''convex''] [''convex/**/*.ts'']))
      = Inr \<lparr>score = 80, matches = [''convex/schema.ts'']\<rparr>"
    by (simp add: example_skill_def calculateFileScore_def contextOpenFiles_def example_runtime_def)
  have k3: "0 = score (calculateKeywordScore example_runtime
      ''create a webhook handler for stripe events''
      (skillKeywords (example_skill ''convex-patterns'' [''convex'', ''mutation''] [])))"
    by (simp add: example_skill_def calculateKeywordScore_def low startsWith_def)
  have c3: "calculateContentScore example_runtime ''create a webhook handler for stripe events''
      (name (example_skill ''convex-patterns'' [''convex'', ''mutation''] []))
      = Inr \<lparr>score = 70, matches = [''webhook/callback'']\<rparr>"
    by (simp add: example_skill_def calculateContentScore_def get_property_def skillPatterns_def
        low patternTest_def SEMANTIC_PATTERNS_def example_runtime_def ascii_toLowerCase_def)
  have z: "(0::int) = score \<lparr>score = 0, matches = []\<rparr>"
    "(70::int) = score \<lparr>score = 70, matches = [''webhook/callback'']\<rparr>"
    "(80::int) = score \<lparr>score = 80, matches = [''convex/schema.ts'']\<rparr>"
    by simp_all
  have "\<exists>r. calculateConfidence example_runtime ''Add a Convex MUTATION''
         (example_skill ''testing-patterns'' [''convex'', ''mutation'', ''react''] []) None = Inr r \<and>
       confidence r = 75"
    using single_active_signal [OF f1 none k1 z(1) z(1)] by simp
  moreover have "\<exists>r. calculateConfidence example_runtime ''hello''
         (example_skill ''testing-patterns'' [''convex''] [''convex/**/*.ts''])
         (Some \<lparr>openFiles = Some [''README.md'', ''convex/schema.ts''], fileContents = None\<rparr>) = Inr r \<and>
       confidence r = 80"
    using single_active_signal [OF f2 none k2 z(3) z(1)] by simp
  moreover have "\<exists>r. calculateConfidence example_runtime ''create a webhook handler for stripe events''
         (example_skill ''convex-patterns'' [''convex'', ''mutation''] []) None = Inr r \<and>
       confidence r = 70"
    using single_active_signal [OF f1 c3 k3 z(1) z(2)] by simp
  ultimately show ?thesis by blast
qed

section \<open>The sub-scores, verified\<close>

text \<open>
  Claim C2, amended.  The keyword sub-score is 0 when no keyword occurs as a substring of
  the lowercased prompt.  With at least one match it is 70 plus 5 for each further matching
  entry of the keyword list, capped at 100, and the matched keywords are returned in catalog
  order.  An entry listed twice counts twice; when the keyword list has no duplicates the
  matching entries are the distinct matched keywords.
\<close>

theorem keyword_score_counts_entries:
  "calculateKeywordScore rt prompt kws =
     (let ms = filter (\<lambda>k. sublist k (toLowerCase rt prompt)) kws
      in \<lparr>score = (if ms = [] then 0 else min 100 (70 + 5 * (int (length ms) - 1))),
          matches = ms\<rparr>) \<and>
   (distinct kws \<longrightarrow>
      score (calculateKeywordScore rt prompt kws) =
        distinct_keyword_score (toLowerCase rt prompt) kws)"
proof -
  have ms: "filter (str_includes (toLowerCase rt prompt)) kws =
      filter (\<lambda>k. sublist k (toLowerCase rt prompt)) kws"
    by (simp add: str_includes_sublist cong: filter_cong)
  have first: "calculateKeywordScore rt prompt kws =
     (let ms = filter (\<lambda>k. sublist k (toLowerCase rt prompt)) kws
      in \<lparr>score = (if ms = [] then 0 else min 100 (70 + 5 * (int (length ms) - 1))),
          matches = ms\<rparr>)"
    by (simp add: calculateKeywordScore_def keyword_matches_filter Let_def mult.commute)
  have "distinct kws \<Longrightarrow> score (calculateKeywordScore rt prompt kws) =
      distinct_keyword_score (toLowerCase rt prompt) kws"
    by (simp add: first distinct_keyword_score_def Let_def ms distinct_remdups_id)
  with first show ?thesis by blast
qed

text \<open>An instance with a duplicate-free keyword list.\<close>

theorem keyword_score_counts_entries_witness:
  "distinct [''convex'', ''mutation'', ''react''] \<and>
   calculateKeywordScore example_runtime ''Add a Convex MUTATION'' [''convex'', ''mutation'', ''react'']
     = \<lparr>score = 75, matches = [''convex'', ''mutation'']\<rparr> \<and>
   distinct_keyword_score (toLowerCase example_runtime ''Add a Convex MUTATION'')
     [''convex'', ''mutation'', ''react''] = 75"
proof -
  have d: "distinct [''convex'', ''mutation'', ''react'']" by simp
  have l: "toLowerCase example_runtime ''Add a Convex MUTATION'' = ''add a convex mutation''"
    by (simp add: example_runtime_def ascii_toLowerCase_def)
  have v: "calculateKeywordScore example_runtime ''Add a Convex MUTATION''
      [''convex'', ''mutation'', ''react''] = \<lparr>score = 75, matches = [''convex'', ''mutation'']\<rparr>"
    by (simp add: calculateKeywordScore_def l startsWith_def)
  from keyword_score_counts_entries [of example_runtime "''Add a Convex MUTATION''"
      "[''convex'', ''mutation'', ''react'']"] d v
  show ?thesis by simp
qed

text \<open>
  Claim C2 as stated counts distinct matched keywords.  For the keyword list
  \<open>["api", "api"]\<close> and the prompt \<open>api\<close> there is one distinct matched keyword, which
  gives 70, and the code returns 75.
\<close>

theorem duplicate_keyword_counterexample:
  "score (calculateKeywordScore example_runtime ''api'' [''api'', ''api'']) = 75 \<and>
   distinct_keyword_score (toLowerCase example_runtime ''api'') [''api'', ''api''] = 70"
  by (simp add: calculateKeywordScore_def distinct_keyword_score_def example_runtime_def
      ascii_toLowerCase_def startsWith_def Let_def)




text \<open>
  Claim C6 says that a skill whose name is not a key of \<open>skillPatterns\<close> receives the
  content sub-score 0 with no matches.  The name \<open>constructor\<close> is not a key of the
  table, and the content score of a skill of that name is a \<open>TypeError\<close>: the lookup gives
  the member inherited from \<open>Object.prototype\<close>, \<open>?? []\<close> leaves it, and the loop over it
  throws.  The lemma \<open>content_skill_not_relevant\<close> covers the names that
  \<open>Object.prototype\<close> does not define.
\<close>

theorem content_score_inherited_name:
  "map_of skillPatterns ''constructor'' = None \<and>
   calculateContentScore rt prompt ''constructor'' = Inl TypeError"
  by (simp add: calculateContentScore_def get_property_def skillPatterns_def
      Object_prototype_keys_def)

section \<open>The path validator, verified\<close>

text \<open>
  Claim C3.  When the normalized target path contains \<open>..\<close>, \<open>validatePath\<close> never
  succeeds: it fails with \<open>path_traversal_detected\<close> or with the code of an earlier step.
\<close>

theorem traversal_never_succeeds:
  assumes "str_includes (path_normalize env targetPath) ''..''"
  shows "\<exists>e. validatePath env targetPath allowedDir = Inl e \<and>
           reason e \<in> set [''allowed_dir_not_found'', ''outside_allowed_directory'',
             ''path_not_found'', ''path_resolution_failed'', ''symlink_outside_project'',
             ''path_traversal_detected'']"
  using assms
  by (simp add: validatePath_def Let_def split: option.splits)

theorem traversal_never_succeeds_witness:
  "str_includes (path_normalize example_fs ''/repo/.claude/notes..md'') ''..'' \<and>
   (\<exists>e. validatePath example_fs ''/repo/.claude/notes..md'' ''/repo/.claude'' = Inl e \<and>
      reason e \<in> set [''allowed_dir_not_found'', ''outside_allowed_directory'',
        ''path_not_found'', ''path_resolution_failed'', ''symlink_outside_project'',
        ''path_traversal_detected''])"
proof -
  have h: "str_includes (path_normalize example_fs ''/repo/.claude/notes..md'') ''..''"
    by (simp add: example_fs_def startsWith_def)
  from h traversal_never_succeeds [OF h, of "''/repo/.claude''"] show ?thesis
    by blast
qed

text \<open>
  Claim C4.  For a target whose unresolved absolute path lies inside the canonical allowed
  directory and exists, and whose normalized form contains no \<open>..\<close>: \<open>validatePath\<close>
  returns the symlink-resolved path when that path lies within the project root, the parent
  of the canonical allowed directory, and fails with \<open>symlink_outside_project\<close> when it
  does not.
\<close>

theorem symlink_within_project:
  assumes "realpathSync env allowedDir = Some allowedRoot"
    and "liesInside env allowedRoot (path_resolve env [path_normalize env targetPath])"
    and "existsSync env (path_resolve env [path_normalize env targetPath])"
    and "\<not> str_includes (path_normalize env targetPath) ''..''"
    and "realpathSync env (path_resolve env [path_normalize env targetPath]) = Some resolved"
  shows "(liesInside env (path_resolve env [allowedRoot, ''..'']) resolved \<longrightarrow>
            validatePath env targetPath allowedDir = Inr resolved) \<and>
         (\<not> liesInside env (path_resolve env [allowedRoot, ''..'']) resolved \<longrightarrow>
            (\<exists>e. validatePath env targetPath allowedDir = Inl e \<and>
                 reason e = ''symlink_outside_project''))"
  using assms
  by (simp add: validatePath_def liesInside_def dirPrefix_def Let_def)

lemma example_fs_simps:
  "realpathSync example_fs = map_of example_paths"
  "existsSync example_fs = (\<lambda>p. map_of example_paths p \<noteq> None)"
  "path_normalize example_fs p = p"
  "path_resolve example_fs [p] = p"
  "path_resolve example_fs [p, ''..''] = parentDir p"
  "path_sep example_fs = CHR ''/''"
  by (simp_all add: example_fs_def)

lemma example_parent: "parentDir ''/repo/.claude'' = ''/repo''" "parentDir ''/'' = ''/''"
  by (simp_all add: parentDir_def)

theorem symlink_within_project_witness:
  "validatePath example_fs ''/repo/.claude/docs'' ''/repo/.claude'' = Inr ''/repo/docs'' \<and>
   (\<exists>e. validatePath example_fs ''/repo/.claude/passwd'' ''/repo/.claude'' = Inl e \<and>
        reason e = ''symlink_outside_project'')"
proof -
  have ar: "realpathSync example_fs ''/repo/.claude'' = Some ''/repo/.claude''"
    by (simp add: example_fs_simps example_paths_def)
  have docs: "liesInside example_fs ''/repo/.claude''
        (path_resolve example_fs [path_normalize example_fs ''/repo/.claude/docs''])"
      "existsSync example_fs (path_resolve example_fs [path_normalize example_fs ''/repo/.claude/docs''])"
      "\<not> str_includes (path_normalize example_fs ''/repo/.claude/docs'') ''..''"
      "realpathSync example_fs (path_resolve example_fs [path_normalize example_fs ''/repo/.claude/docs''])
         = Some ''/repo/docs''"
    by (simp_all add: example_fs_simps example_paths_def liesInside_def dirPrefix_def
        startsWith_def endsWith_def)
  have passwd: "liesInside example_fs ''/repo/.claude''
        (path_resolve example_fs [path_normalize example_fs ''/repo/.claude/passwd''])"
      "existsSync example_fs (path_resolve example_fs [path_normalize example_fs ''/repo/.claude/passwd''])"
      "\<not> str_includes (path_normalize example_fs ''/repo/.claude/passwd'') ''..''"
      "realpathSync example_fs (path_resolve example_fs [path_normalize example_fs ''/repo/.claude/passwd''])
         = Some ''/etc/passwd''"
    by (simp_all add: example_fs_simps example_paths_def liesInside_def dirPrefix_def
        startsWith_def endsWith_def)
  have inside: "liesInside example_fs (path_resolve example_fs [''/repo/.claude'', ''..'']) ''/repo/docs''"
    "\<not> liesInside example_fs (path_resolve example_fs [''/repo/.claude'', ''..'']) ''/etc/passwd''"
    by (simp_all add: example_fs_simps example_parent liesInside_def dirPrefix_def
        startsWith_def endsWith_def)
  from symlink_within_project [OF ar docs] symlink_within_project [OF ar passwd] inside
  show ?thesis by blast
qed

text \<open>
  Claim C9, amended.  When the canonical allowed directory does not end with the path
  separator, a target whose absolute path is the canonical allowed directory itself fails
  with \<open>outside_allowed_directory\<close>.
\<close>

theorem allowed_root_rejected:
  assumes "realpathSync env allowedDir = Some allowedRoot"
    and "path_resolve env [path_normalize env targetPath] = allowedRoot"
    and "\<not> endsWith allowedRoot [path_sep env]"
  shows "\<exists>e. validatePath env targetPath allowedDir = Inl e \<and>
           reason e = ''outside_allowed_directory''"
  using assms
  by (simp add: validatePath_def Let_def startsWith_def)

theorem allowed_root_rejected_witness:
  "\<exists>e. validatePath example_fs ''/repo/.claude'' ''/repo/.claude'' = Inl e \<and>
       reason e = ''outside_allowed_directory''"
proof -
  have "realpathSync example_fs ''/repo/.claude'' = Some ''/repo/.claude''"
    "path_resolve example_fs [path_normalize example_fs ''/repo/.claude''] = ''/repo/.claude''"
    "\<not> endsWith ''/repo/.claude'' [path_sep example_fs]"
    by (simp_all add: example_fs_simps example_paths_def endsWith_def)
  then show ?thesis by (rule allowed_root_rejected)
qed

text \<open>
  Claim C9 as stated lets no allowed directory be a valid target.  The file system root
  ends with the separator, so it is its own prefix: with \<open>/\<close> as the allowed directory the
  target \<open>/\<close> is validated.
\<close>

theorem filesystem_root_counterexample:
  "realpathSync example_fs ''/'' = Some ''/'' \<and>
   path_resolve example_fs [path_normalize example_fs ''/''] = ''/'' \<and>
   validatePath example_fs ''/'' ''/'' = Inr ''/''"
  by (simp add: validatePath_def example_fs_simps example_paths_def example_parent
      startsWith_def endsWith_def)

text \<open>
  Claim C10, amended.  An existing path inside the allowed directory whose symlink-resolved
  path lies within the project root, and whose normalized form contains the substring
  \<open>..\<close> anywhere, a file name such as \<open>notes..md\<close> included, is rejected with
  \<open>path_traversal_detected\<close>.
\<close>

theorem dotdot_substring_rejected:
  assumes "realpathSync env allowedDir = Some allowedRoot"
    and "liesInside env allowedRoot (path_resolve env [path_normalize env targetPath])"
    and "existsSync env (path_resolve env [path_normalize env targetPath])"
    and "realpathSync env (path_resolve env [path_normalize env targetPath]) = Some resolved"
    and "liesInside env (path_resolve env [allowedRoot, ''..'']) resolved"
    and "str_includes (path_normalize env targetPath) ''..''"
  shows "\<exists>e. validatePath env targetPath allowedDir = Inl e \<and>
           reason e = ''path_traversal_detected''"
  using assms
  by (simp add: validatePath_def liesInside_def dirPrefix_def Let_def)

theorem dotdot_substring_rejected_witness:
  "\<exists>e. validatePath example_fs ''/repo/.claude/notes..md'' ''/repo/.claude'' = Inl e \<and>
       reason e = ''path_traversal_detected''"
proof -
  have "realpathSync example_fs ''/repo/.claude'' = Some ''/repo/.claude''"
    "liesInside example_fs ''/repo/.claude''
        (path_resolve example_fs [path_normalize example_fs ''/repo/.claude/notes..md''])"
    "existsSync example_fs (path_resolve example_fs [path_normalize example_fs ''/repo/.claude/notes..md''])"
    "realpathSync example_fs (path_resolve example_fs [path_normalize example_fs ''/repo/.claude/notes..md''])
         = Some ''/repo/.claude/notes..md''"
    "liesInside example_fs (path_resolve example_fs [''/repo/.claude'', ''..'']) ''/repo/.claude/notes..md''"
    "str_includes (path_normalize example_fs ''/repo/.claude/notes..md'') ''..''"
    by (simp_all add: example_fs_simps example_paths_def example_parent liesInside_def
        dirPrefix_def startsWith_def endsWith_def)
  then show ?thesis by (rule dotdot_substring_rejected)
qed

text \<open>
  Claim C10 as stated gives \<open>path_traversal_detected\<close> for every existing path inside the
  allowed directory with \<open>..\<close> in its normalized form.  The symbolic link \<open>link..out\<close>
  is such a path; it points outside the project and is rejected one step earlier, with
  \<open>symlink_outside_project\<close>.
\<close>

theorem escaping_symlink_counterexample:
  "existsSync example_fs ''/repo/.claude/link..out'' \<and>
   liesInside example_fs ''/repo/.claude'' ''/repo/.claude/link..out'' \<and>
   str_includes (path_normalize example_fs ''/repo/.claude/link..out'') ''..'' \<and>
   (\<exists>e. validatePath example_fs ''/repo/.claude/link..out'' ''/repo/.claude'' = Inl e \<and>
        reason e = ''symlink_outside_project'')"
  by (simp add: validatePath_def example_fs_simps example_paths_def example_parent
      liesInside_def dirPrefix_def startsWith_def endsWith_def)

end
